theory Spec2Isabelle
  imports Main
begin

section \<open>The SIWE JWT-bearer flow (flow-siwe.ts)\<close>

text \<open>
  A shallow embedding of the class \<^verbatim>\<open>SIWEJwtBearerAuth\<close>. The object is a record of its
  three private fields; every method takes the object and returns its result together
  with the object afterwards. A \<^verbatim>\<open>throw\<close> (or a rejected promise) is the value
  \<open>Inl e\<close>, and \<^verbatim>\<open>await\<close> is sequencing that stops at the first \<open>Inl\<close>. The flow is
  single-threaded: one method runs from its first line to its return before the next starts.
\<close>

subsection \<open>Data\<close>

text \<open>
  \<^verbatim>\<open>ValidationError\<close> is the class thrown by \<^verbatim>\<open>#assertSigner\<close>; whatever else a
  collaborator throws is an \<open>OtherError\<close>. A collaborator may throw either.
\<close>

datatype error = ValidationError string | OtherError string

text \<open>
  The environment selector and the authentication type are only passed on to the
  services; they are kept as the strings they are at run time.
\<close>

type_synonym Env = string
type_synonym AuthType = string

record AuthConfig =
  env :: Env
  type :: AuthType

text \<open>
  \<^verbatim>\<open>JwtBearerAuth_SIWE_Signer\<close> (lines 24-29). The signing capability is a function that
  returns the signature or throws.
\<close>

record JwtBearerAuth_SIWE_Signer =
  address :: string
  chainId :: int
  signer_signMessage :: "string \<Rightarrow> error + string"
  domain :: string

text \<open>
  The token read by the flow: \<^verbatim>\<open>token.accessToken\<close> and \<^verbatim>\<open>token.obtainedAt\<close>
  (milliseconds since the epoch; an integer, as \<^verbatim>\<open>Date.now()\<close> is, so that the
  subtraction of line 87 is exact). The user profile \<open>'p\<close> and the intermediate token
  \<open>'i\<close> returned by \<^verbatim>\<open>authenticate\<close> are never inspected and stay type parameters.
\<close>

record AccessToken =
  accessToken :: string
  obtainedAt :: int

record 'p LoginResponse =
  profile :: 'p
  token :: AccessToken

record NonceResponse =
  nonce :: string

record ('p, 'i) AuthResponse =
  auth_profile :: 'p
  auth_token :: 'i

text \<open>The object literal handed to \<^verbatim>\<open>new SiweMessage\<close> (lines 131-139).\<close>

record SiweMessage =
  siwe_domain :: string
  siwe_address :: string
  siwe_uri :: string
  siwe_version :: string
  siwe_chainId :: int
  siwe_nonce :: string
  siwe_issuedAt :: string

text \<open>
  Every call that leaves the class is recorded, in order, with its arguments: the two
  storage operations, the three services, the construction of the sign-in message and
  the signer's signing capability.
\<close>

datatype ('p, 'i) call =
    StorageGet
  | StorageSet "'p LoginResponse"
  | GetNonce string Env
  | NewSiweMessage SiweMessage
  | SignMessage string
  | Authenticate string string AuthType Env
  | AuthorizeOIDC 'i Env

text \<open>
  What the class imports or is given, none of it under the source tree: the storage
  backend of \<^verbatim>\<open>#options.storage\<close> over its own state \<open>'s\<close> (a read does not change
  it; a write that throws leaves it as it was), the services of \<^verbatim>\<open>./services\<close>, the
  constant of \<^verbatim>\<open>./constants\<close>, the \<^verbatim>\<open>siwe\<close> library's
  \<^verbatim>\<open>new SiweMessage(...).prepareMessage()\<close>, and the clock: the value of
  \<^verbatim>\<open>Date.now()\<close> at line 86 and of \<^verbatim>\<open>new Date()\<close> at line 138, with its
  \<^verbatim>\<open>toISOString\<close>.
\<close>

record ('s, 'p, 'i) collaborators =
  getLoginResponse :: "'s \<Rightarrow> error + 'p LoginResponse option"
  setLoginResponse :: "'p LoginResponse \<Rightarrow> 's \<Rightarrow> error + 's"
  getNonce :: "string \<Rightarrow> Env \<Rightarrow> error + NonceResponse"
  authenticate :: "string \<Rightarrow> string \<Rightarrow> AuthType \<Rightarrow> Env \<Rightarrow> error + ('p, 'i) AuthResponse"
  authorizeOIDC :: "'i \<Rightarrow> Env \<Rightarrow> error + AccessToken"
  SIWE_LOGIN_URL :: "Env \<Rightarrow> string"
  SESSION_LIFETIME_MS :: int
  prepareMessage :: "SiweMessage \<Rightarrow> error + string"
  Date_now :: int
  new_Date :: int
  toISOString :: "int \<Rightarrow> string"

text \<open>
  The object: \<^verbatim>\<open>#config\<close>, the state of the storage behind \<^verbatim>\<open>#options\<close>,
  \<^verbatim>\<open>#signer\<close> (\<open>None\<close> is \<^verbatim>\<open>undefined\<close>), and the calls made so far.
\<close>

record ('s, 'p, 'i) SIWEJwtBearerAuth =
  config :: AuthConfig
  storage :: 's
  signer :: "JwtBearerAuth_SIWE_Signer option"
  calls :: "('p, 'i) call list"

type_synonym ('s, 'p, 'i, 'a) async =
  "('s, 'p, 'i) SIWEJwtBearerAuth \<Rightarrow> (error + 'a) \<times> ('s, 'p, 'i) SIWEJwtBearerAuth"

subsection \<open>Sequencing\<close>

definition await :: "('s, 'p, 'i, 'a) async \<Rightarrow> ('a \<Rightarrow> ('s, 'p, 'i, 'b) async) \<Rightarrow> ('s, 'p, 'i, 'b) async" where
  "await m k s = (case m s of (Inl e, s') \<Rightarrow> (Inl e, s') | (Inr x, s') \<Rightarrow> k x s')"

definition return :: "'a \<Rightarrow> ('s, 'p, 'i, 'a) async" where
  "return x s = (Inr x, s)"

text \<open>A call to a collaborator: record it, then take its answer.\<close>

definition invoke :: "('p, 'i) call \<Rightarrow> error + 'a \<Rightarrow> ('s, 'p, 'i, 'a) async" where
  "invoke c r s = (r, s\<lparr>calls := calls s @ [c]\<rparr>)"

subsection \<open>The calls that leave the class\<close>

text \<open>\<^verbatim>\<open>this.#options.storage.getLoginResponse()\<close> (line 81).\<close>

definition storage_getLoginResponse :: "('s, 'p, 'i) collaborators \<Rightarrow> ('s, 'p, 'i, 'p LoginResponse option) async" where
  "storage_getLoginResponse w s = invoke StorageGet (getLoginResponse w (storage s)) s"

text \<open>\<^verbatim>\<open>this.#options.storage.setLoginResponse(result)\<close> (line 123).\<close>

definition storage_setLoginResponse :: "('s, 'p, 'i) collaborators \<Rightarrow> 'p LoginResponse \<Rightarrow> ('s, 'p, 'i, unit) async" where
  "storage_setLoginResponse w result s =
     await (invoke (StorageSet result) (setLoginResponse w result (storage s)))
       (\<lambda>st s'. return () (s'\<lparr>storage := st\<rparr>)) s"

text \<open>\<^verbatim>\<open>getNonce(address, this.#config.env)\<close> (line 99).\<close>

definition services_getNonce :: "('s, 'p, 'i) collaborators \<Rightarrow> string \<Rightarrow> ('s, 'p, 'i, NonceResponse) async" where
  "services_getNonce w a s =
     invoke (GetNonce a (env (config s))) (getNonce w a (env (config s))) s"

text \<open>\<^verbatim>\<open>authenticate(rawMessage, signature, this.#config.type, this.#config.env)\<close> (lines 104-109).\<close>

definition services_authenticate :: "('s, 'p, 'i) collaborators \<Rightarrow> string \<Rightarrow> string \<Rightarrow> ('s, 'p, 'i, ('p, 'i) AuthResponse) async" where
  "services_authenticate w rawMessage signature s =
     invoke (Authenticate rawMessage signature (type (config s)) (env (config s)))
       (authenticate w rawMessage signature (type (config s)) (env (config s))) s"

text \<open>\<^verbatim>\<open>authorizeOIDC(authResponse.token, this.#config.env)\<close> (lines 112-115).\<close>

definition services_authorizeOIDC :: "('s, 'p, 'i) collaborators \<Rightarrow> 'i \<Rightarrow> ('s, 'p, 'i, AccessToken) async" where
  "services_authorizeOIDC w t s =
     invoke (AuthorizeOIDC t (env (config s))) (authorizeOIDC w t (env (config s))) s"

subsection \<open>The methods\<close>

text \<open>\<^verbatim>\<open>#assertSigner\<close> (lines 142-148): throws, or narrows the signer to a present one.\<close>

definition not_prepared :: error where
  "not_prepared =
     ValidationError (''you must call '' @ [CHR 0x27] @ ''prepare()'' @ [CHR 0x27] @ '' before logging in'')"

definition assertSigner :: "JwtBearerAuth_SIWE_Signer option \<Rightarrow> error + JwtBearerAuth_SIWE_Signer" where
  "assertSigner sg = (case sg of None \<Rightarrow> Inl not_prepared | Some x \<Rightarrow> Inr x)"

text \<open>\<^verbatim>\<open>getIdentifier\<close> (lines 66-69).\<close>

definition getIdentifier :: "('s, 'p, 'i, string) async" where
  "getIdentifier s =
     (case assertSigner (signer s) of
        Inl e \<Rightarrow> (Inl e, s)
      | Inr sg \<Rightarrow> return (address sg) s)"

text \<open>\<^verbatim>\<open>signMessage\<close> (lines 71-74).\<close>

definition signMessage :: "string \<Rightarrow> ('s, 'p, 'i, string) async" where
  "signMessage message s =
     (case assertSigner (signer s) of
        Inl e \<Rightarrow> (Inl e, s)
      | Inr sg \<Rightarrow> invoke (SignMessage message) (signer_signMessage sg message) s)"

text \<open>\<^verbatim>\<open>prepare\<close> (lines 76-78).\<close>

definition prepare :: "JwtBearerAuth_SIWE_Signer \<Rightarrow> ('s, 'p, 'i) SIWEJwtBearerAuth \<Rightarrow> ('s, 'p, 'i) SIWEJwtBearerAuth" where
  "prepare sg s = s\<lparr>signer := Some sg\<rparr>"

text \<open>\<^verbatim>\<open>#getAuthSession\<close> (lines 80-92); \<open>None\<close> is \<^verbatim>\<open>null\<close>.\<close>

definition getAuthSession :: "('s, 'p, 'i) collaborators \<Rightarrow> ('s, 'p, 'i, 'p LoginResponse option) async" where
  "getAuthSession w =
     await (storage_getLoginResponse w) (\<lambda>auth.
       case auth of
         None \<Rightarrow> return None
       | Some a \<Rightarrow>
           (let currentTime = Date_now w;
                sessionAge = currentTime - obtainedAt (token a)
            in if sessionAge < SESSION_LIFETIME_MS w then return (Some a) else return None))"

text \<open>
  \<^verbatim>\<open>#createSiWELoginRawMessage\<close> (lines 128-140): the object literal, then the
  library call on it.
\<close>

definition siweFields :: "('s, 'p, 'i) collaborators \<Rightarrow> AuthConfig \<Rightarrow> JwtBearerAuth_SIWE_Signer \<Rightarrow> string \<Rightarrow> SiweMessage" where
  "siweFields w cfg sg n =
     \<lparr>siwe_domain = domain sg,
      siwe_address = address sg,
      siwe_uri = SIWE_LOGIN_URL w (env cfg),
      siwe_version = ''1'',
      siwe_chainId = chainId sg,
      siwe_nonce = n,
      siwe_issuedAt = toISOString w (new_Date w)\<rparr>"

definition createSiWELoginRawMessage :: "('s, 'p, 'i) collaborators \<Rightarrow> string \<Rightarrow> ('s, 'p, 'i, string) async" where
  "createSiWELoginRawMessage w n s =
     (case assertSigner (signer s) of
        Inl e \<Rightarrow> (Inl e, s)
      | Inr sg \<Rightarrow>
          (let fields = siweFields w (config s) sg n
           in invoke (NewSiweMessage fields) (prepareMessage w fields) s))"

text \<open>\<^verbatim>\<open>#login\<close> (lines 94-126).\<close>

definition login :: "('s, 'p, 'i) collaborators \<Rightarrow> ('s, 'p, 'i, 'p LoginResponse) async" where
  "login w s =
     (case assertSigner (signer s) of
        Inl e \<Rightarrow> (Inl e, s)
      | Inr _ \<Rightarrow>
          await getIdentifier (\<lambda>address.
          await (services_getNonce w address) (\<lambda>nonceRes.
          await (createSiWELoginRawMessage w (nonce nonceRes)) (\<lambda>rawMessage.
          await (signMessage rawMessage) (\<lambda>signature.
          await (services_authenticate w rawMessage signature) (\<lambda>authResponse.
          await (services_authorizeOIDC w (auth_token authResponse)) (\<lambda>tokenResponse.
            (let result = \<lparr>profile = auth_profile authResponse, token = tokenResponse\<rparr>
             in await (storage_setLoginResponse w result) (\<lambda>_. return result)))))))) s)"

text \<open>\<^verbatim>\<open>getAccessToken\<close> (lines 46-54).\<close>

definition getAccessToken :: "('s, 'p, 'i) collaborators \<Rightarrow> ('s, 'p, 'i, string) async" where
  "getAccessToken w =
     await (getAuthSession w) (\<lambda>session.
       case session of
         Some a \<Rightarrow> return (accessToken (token a))
       | None \<Rightarrow> await (login w) (\<lambda>loginResponse. return (accessToken (token loginResponse))))"

text \<open>\<^verbatim>\<open>getUserProfile\<close> (lines 56-64).\<close>

definition getUserProfile :: "('s, 'p, 'i) collaborators \<Rightarrow> ('s, 'p, 'i, 'p) async" where
  "getUserProfile w =
     await (getAuthSession w) (\<lambda>session.
       case session of
         Some a \<Rightarrow> return (profile a)
       | None \<Rightarrow> await (login w) (\<lambda>loginResponse. return (profile loginResponse)))"

subsection \<open>Reading the record of calls\<close>

text \<open>
  The sessions written to storage, the sign-in messages constructed, the texts signed, and
  the (message, signature) pairs submitted to \<^verbatim>\<open>authenticate\<close>.
\<close>

fun written :: "('p, 'i) call list \<Rightarrow> 'p LoginResponse list" where
  "written [] = []"
| "written (StorageSet r # cs) = r # written cs"
| "written (_ # cs) = written cs"

fun constructed :: "('p, 'i) call list \<Rightarrow> SiweMessage list" where
  "constructed [] = []"
| "constructed (NewSiweMessage f # cs) = f # constructed cs"
| "constructed (_ # cs) = constructed cs"

fun signed :: "('p, 'i) call list \<Rightarrow> string list" where
  "signed [] = []"
| "signed (SignMessage m # cs) = m # signed cs"
| "signed (_ # cs) = signed cs"

fun submitted :: "('p, 'i) call list \<Rightarrow> (string \<times> string) list" where
  "submitted [] = []"
| "submitted (Authenticate m sig _ _ # cs) = (m, sig) # submitted cs"
| "submitted (_ # cs) = submitted cs"

text \<open>A run from \<open>s\<close> to \<open>s'\<close> wrote nothing: no write was requested and storage is as it was.\<close>

definition unwritten :: "('s, 'p, 'i) SIWEJwtBearerAuth \<Rightarrow> ('s, 'p, 'i) SIWEJwtBearerAuth \<Rightarrow> bool" where
  "unwritten s s' \<longleftrightarrow> written (calls s') = written (calls s) \<and> storage s' = storage s"

text \<open>The test of line 88 on a stored session.\<close>

definition fresh :: "('s, 'p, 'i) collaborators \<Rightarrow> 'p LoginResponse \<Rightarrow> bool" where
  "fresh w a \<longleftrightarrow> Date_now w - obtainedAt (token a) < SESSION_LIFETIME_MS w"

subsection \<open>A test double\<close>

text \<open>
  The round trip of the specification: a signer for address \<open>0xABC\<close> on chain 1 and
  domain \<open>example.com\<close>; storage is one cell; the nonce service answers \<open>n\<close>; the
  clock reads \<open>now\<close>; sessions last 1000 ms; the stand-in for the library prints the
  nonce line only.
\<close>

definition example_signer :: JwtBearerAuth_SIWE_Signer where
  "example_signer =
     \<lparr>address = ''0xABC'', chainId = 1,
      signer_signMessage = (\<lambda>m. Inr (''sig('' @ m @ '')'')),
      domain = ''example.com''\<rparr>"

definition example_world :: "string \<Rightarrow> int \<Rightarrow> (string LoginResponse option, string, string) collaborators" where
  "example_world n now =
     \<lparr>getLoginResponse = Inr,
      setLoginResponse = (\<lambda>r _. Inr (Some r)),
      getNonce = (\<lambda>_ _. Inr \<lparr>nonce = n\<rparr>),
      authenticate = (\<lambda>_ _ _ _. Inr \<lparr>auth_profile = ''u1'', auth_token = ''i1''\<rparr>),
      authorizeOIDC = (\<lambda>_ _. Inr \<lparr>accessToken = ''a1'', obtainedAt = now\<rparr>),
      SIWE_LOGIN_URL = (\<lambda>e. ''https://auth.'' @ e @ ''/siwe/login''),
      SESSION_LIFETIME_MS = 1000,
      prepareMessage = (\<lambda>f. Inr (''Nonce: '' @ siwe_nonce f)),
      Date_now = now,
      new_Date = now,
      toISOString = (\<lambda>_. ''2026-01-01T00:00:00.000Z'')\<rparr>"

definition example_session :: "int \<Rightarrow> string LoginResponse" where
  "example_session t = \<lparr>profile = ''u0'', token = \<lparr>accessToken = ''a0'', obtainedAt = t\<rparr>\<rparr>"

definition example_auth :: "string LoginResponse option \<Rightarrow> JwtBearerAuth_SIWE_Signer option \<Rightarrow> (string LoginResponse option, string, string) SIWEJwtBearerAuth" where
  "example_auth st sg =
     \<lparr>config = \<lparr>env = ''dev'', type = ''SiWE''\<rparr>, storage = st, signer = sg, calls = []\<rparr>"


definition example_failure :: error where
  "example_failure = OtherError ''503''"

section \<open>Properties\<close>

subsection \<open>Auxiliary facts\<close>

lemma written_append: "written (xs @ ys) = written xs @ written ys"
  by (induction xs rule: written.induct) simp_all

lemma constructed_append: "constructed (xs @ ys) = constructed xs @ constructed ys"
  by (induction xs rule: constructed.induct) simp_all

lemma signed_append: "signed (xs @ ys) = signed xs @ signed ys"
  by (induction xs rule: signed.induct) simp_all

lemma submitted_append: "submitted (xs @ ys) = submitted xs @ submitted ys"
  by (induction xs rule: submitted.induct) simp_all

text \<open>The cache read in one equation: one storage read, then the answer.\<close>

lemma getAuthSession_eq:
  "getAuthSession w s =
     ((case getLoginResponse w (storage s) of
         Inl e \<Rightarrow> Inl e
       | Inr None \<Rightarrow> Inr None
       | Inr (Some a) \<Rightarrow> if fresh w a then Inr (Some a) else Inr None),
      s\<lparr>calls := calls s @ [StorageGet]\<rparr>)"
  by (simp add: getAuthSession_def await_def storage_getLoginResponse_def invoke_def return_def
      fresh_def Let_def split: sum.splits option.splits)

lemma login_absent: "signer s = None \<Longrightarrow> login w s = (Inl not_prepared, s)"
  by (simp add: login_def assertSigner_def)

text \<open>The login with a signer attached, stage by stage, with the calls made up to each exit.\<close>

lemma login_attached:
  assumes "signer s = Some sg"
  shows "login w s =
    (let e = env (config s);
         c1 = calls s @ [GetNonce (address sg) e]
     in case getNonce w (address sg) e of
          Inl x \<Rightarrow> (Inl x, s\<lparr>calls := c1\<rparr>)
        | Inr nr \<Rightarrow>
           (let f = siweFields w (config s) sg (nonce nr);
                c2 = c1 @ [NewSiweMessage f]
            in case prepareMessage w f of
                 Inl x \<Rightarrow> (Inl x, s\<lparr>calls := c2\<rparr>)
               | Inr m \<Rightarrow>
                  (let c3 = c2 @ [SignMessage m]
                   in case signer_signMessage sg m of
                        Inl x \<Rightarrow> (Inl x, s\<lparr>calls := c3\<rparr>)
                      | Inr sig \<Rightarrow>
                         (let c4 = c3 @ [Authenticate m sig (type (config s)) e]
                          in case authenticate w m sig (type (config s)) e of
                               Inl x \<Rightarrow> (Inl x, s\<lparr>calls := c4\<rparr>)
                             | Inr ar \<Rightarrow>
                                (let c5 = c4 @ [AuthorizeOIDC (auth_token ar) e]
                                 in case authorizeOIDC w (auth_token ar) e of
                                      Inl x \<Rightarrow> (Inl x, s\<lparr>calls := c5\<rparr>)
                                    | Inr tok \<Rightarrow>
                                       (let result = \<lparr>profile = auth_profile ar, token = tok\<rparr>;
                                            c6 = c5 @ [StorageSet result]
                                        in case setLoginResponse w result (storage s) of
                                             Inl x \<Rightarrow> (Inl x, s\<lparr>calls := c6\<rparr>)
                                           | Inr st \<Rightarrow> (Inr result, s\<lparr>calls := c6, storage := st\<rparr>)))))))"
  using assms
  by (simp add: login_def assertSigner_def getIdentifier_def await_def return_def invoke_def
      services_getNonce_def createSiWELoginRawMessage_def signMessage_def
      services_authenticate_def services_authorizeOIDC_def storage_setLoginResponse_def
      Let_def split: sum.splits)

lemma getAccessToken_hit:
  "getLoginResponse w (storage s) = Inr (Some a) \<Longrightarrow> fresh w a \<Longrightarrow>
   getAccessToken w s = (Inr (accessToken (token a)), s\<lparr>calls := calls s @ [StorageGet]\<rparr>)"
  by (simp add: getAccessToken_def await_def getAuthSession_eq return_def)

lemma getUserProfile_hit:
  "getLoginResponse w (storage s) = Inr (Some a) \<Longrightarrow> fresh w a \<Longrightarrow>
   getUserProfile w s = (Inr (profile a), s\<lparr>calls := calls s @ [StorageGet]\<rparr>)"
  by (simp add: getUserProfile_def await_def getAuthSession_eq return_def)

lemma getAccessToken_miss_absent:
  "signer s = None \<Longrightarrow> getLoginResponse w (storage s) = Inr (Some a) \<Longrightarrow> \<not> fresh w a \<Longrightarrow>
   getAccessToken w s = (Inl not_prepared, s\<lparr>calls := calls s @ [StorageGet]\<rparr>)"
  by (simp add: getAccessToken_def await_def getAuthSession_eq return_def login_absent)

lemma getUserProfile_miss_absent:
  "signer s = None \<Longrightarrow> getLoginResponse w (storage s) = Inr (Some a) \<Longrightarrow> \<not> fresh w a \<Longrightarrow>
   getUserProfile w s = (Inl not_prepared, s\<lparr>calls := calls s @ [StorageGet]\<rparr>)"
  by (simp add: getUserProfile_def await_def getAuthSession_eq return_def login_absent)

text \<open>The test double's records, field by field.\<close>

lemmas example_defs =
  example_world_def example_auth_def example_session_def example_signer_def example_failure_def

subsection \<open>The session cache\<close>

text \<open>
  C1. For a stored session obtained at time \<open>T\<close>, the cache read at time \<open>now\<close> returns the
  session exactly when \<open>now - T < SESSION_LIFETIME_MS\<close>, and reports no session exactly
  otherwise: at \<open>T + SESSION_LIFETIME_MS - 1\<close> it returns the session, at
  \<open>T + SESSION_LIFETIME_MS\<close> or later it returns none.
\<close>

theorem getAuthSession_expiry_boundary:
  assumes "getLoginResponse w (storage s) = Inr (Some a)"
  shows "(fst (getAuthSession w s) = Inr (Some a)
            \<longleftrightarrow> Date_now w - obtainedAt (token a) < SESSION_LIFETIME_MS w)
       \<and> (fst (getAuthSession w s) = Inr None
            \<longleftrightarrow> \<not> Date_now w - obtainedAt (token a) < SESSION_LIFETIME_MS w)
       \<and> (Date_now w = obtainedAt (token a) + SESSION_LIFETIME_MS w - 1
            \<longrightarrow> fst (getAuthSession w s) = Inr (Some a))
       \<and> (obtainedAt (token a) + SESSION_LIFETIME_MS w \<le> Date_now w
            \<longrightarrow> fst (getAuthSession w s) = Inr None)"
  using assms by (simp add: getAuthSession_eq fresh_def)

theorem getAuthSession_expiry_boundary_witness:
  "fst (getAuthSession (example_world ''n1'' 1499) (example_auth (Some (example_session 500)) None))
     = Inr (Some (example_session 500))
   \<and> fst (getAuthSession (example_world ''n1'' 1500) (example_auth (Some (example_session 500)) None))
     = Inr None
   \<and> fst (getAuthSession (example_world ''n1'' 99999) (example_auth (Some (example_session 500)) None))
     = Inr None"
  using getAuthSession_expiry_boundary
          [of "example_world ''n1'' 1499" "example_auth (Some (example_session 500)) None" "example_session 500"]
        getAuthSession_expiry_boundary
          [of "example_world ''n1'' 1500" "example_auth (Some (example_session 500)) None" "example_session 500"]
        getAuthSession_expiry_boundary
          [of "example_world ''n1'' 99999" "example_auth (Some (example_session 500)) None" "example_session 500"]
  by (simp add: example_defs)

text \<open>
  C7. The cache read is a read only: whatever storage holds and whatever the time, it makes one
  storage read and nothing else, so it requests no write and no login, and leaves the
  storage, the signer and the configuration as they were. An absent session and an expired
  one are both reported as no session, and the expired one is still what storage holds.
\<close>

theorem getAuthSession_read_only:
  "snd (getAuthSession w s) = s\<lparr>calls := calls s @ [StorageGet]\<rparr>
   \<and> storage (snd (getAuthSession w s)) = storage s
   \<and> signer (snd (getAuthSession w s)) = signer s
   \<and> config (snd (getAuthSession w s)) = config s
   \<and> written (calls (snd (getAuthSession w s))) = written (calls s)
   \<and> (getLoginResponse w (storage s) = Inr None \<longrightarrow> fst (getAuthSession w s) = Inr None)
   \<and> (\<forall>a. getLoginResponse w (storage s) = Inr (Some a)
            \<and> \<not> Date_now w - obtainedAt (token a) < SESSION_LIFETIME_MS w
        \<longrightarrow> fst (getAuthSession w s) = Inr None
            \<and> getLoginResponse w (storage (snd (getAuthSession w s))) = Inr (Some a))"
  by (simp add: getAuthSession_eq fresh_def written_append)

theorem getAuthSession_read_only_witness:
  "getAuthSession (example_world ''n1'' 1500) (example_auth (Some (example_session 500)) (Some example_signer))
     = (Inr None,
        (example_auth (Some (example_session 500)) (Some example_signer))\<lparr>calls := [StorageGet]\<rparr>)
   \<and> getAuthSession (example_world ''n1'' 1500) (example_auth None (Some example_signer))
     = (Inr None, (example_auth None (Some example_signer))\<lparr>calls := [StorageGet]\<rparr>)"
  using getAuthSession_read_only
          [of "example_world ''n1'' 1500" "example_auth (Some (example_session 500)) (Some example_signer)"]
        getAuthSession_read_only
          [of "example_world ''n1'' 1500" "example_auth None (Some example_signer)"]
  by (auto simp: example_defs prod_eq_iff)

text \<open>
  C10. A stored session whose \<open>obtainedAt\<close> lies after the time of the call has a negative
  age, and the cache read returns it: with a non-negative lifetime the test of the age is an
  upper bound only.
\<close>

theorem getAuthSession_future_session:
  assumes "getLoginResponse w (storage s) = Inr (Some a)"
    and "Date_now w < obtainedAt (token a)"
    and "0 \<le> SESSION_LIFETIME_MS w"
  shows "Date_now w - obtainedAt (token a) < 0
       \<and> getAuthSession w s = (Inr (Some a), s\<lparr>calls := calls s @ [StorageGet]\<rparr>)"
  using assms by (simp add: getAuthSession_eq fresh_def)

theorem getAuthSession_future_session_witness:
  "fst (getAuthSession (example_world ''n1'' 1000) (example_auth (Some (example_session 5000)) None))
     = Inr (Some (example_session 5000))"
  using getAuthSession_future_session
          [of "example_world ''n1'' 1000" "example_auth (Some (example_session 5000)) None" "example_session 5000"]
  by (simp add: example_defs)

subsection \<open>The signer binding\<close>

text \<open>
  C3. With no signer attached, \<open>getIdentifier\<close>, \<open>signMessage\<close> and the login each fail with
  the error of the signer assertion, and the object afterwards is the object before: no
  call to storage, to a service or to a signer was made.
\<close>

theorem absent_signer_fails_without_calls:
  assumes "signer s = None"
  shows "getIdentifier s = (Inl not_prepared, s)
       \<and> signMessage message s = (Inl not_prepared, s)
       \<and> login w s = (Inl not_prepared, s)"
  using assms by (simp add: getIdentifier_def signMessage_def assertSigner_def login_absent)

theorem absent_signer_fails_without_calls_witness:
  "getIdentifier (example_auth None None) = (Inl not_prepared, example_auth None None)
   \<and> signMessage ''hello'' (example_auth None None) = (Inl not_prepared, example_auth None None)
   \<and> login (example_world ''n1'' 0) (example_auth None None) = (Inl not_prepared, example_auth None None)"
  using absent_signer_fails_without_calls
          [of "example_auth None None" "''hello''" "example_world ''n1'' 0"]
  by (simp add: example_defs)

text \<open>
  C8. \<open>prepare\<close> stores the signer it is given, whatever its fields and whatever was bound
  before; the configuration, the storage and the calls made are untouched, and it has no
  failing outcome. The identifier read afterwards is the new signer's address.
\<close>

theorem prepare_overwrites_signer:
  "signer (prepare sg s) = Some sg
   \<and> config (prepare sg s) = config s
   \<and> storage (prepare sg s) = storage s
   \<and> calls (prepare sg s) = calls s
   \<and> prepare sg (prepare sg0 s) = prepare sg s
   \<and> getIdentifier (prepare sg s) = (Inr (address sg), prepare sg s)"
  by (simp add: prepare_def getIdentifier_def assertSigner_def return_def)

subsection \<open>The accessors\<close>

text \<open>
  C4. When storage holds a session that passes the freshness test at the time of the call,
  \<open>getAccessToken\<close> returns its access token and \<open>getUserProfile\<close> its profile; the only
  call made is the storage read, so no nonce, authenticate or authorize request and no
  storage write.
\<close>

theorem valid_session_short_circuits:
  assumes "getLoginResponse w (storage s) = Inr (Some a)"
    and "Date_now w - obtainedAt (token a) < SESSION_LIFETIME_MS w"
  shows "getAccessToken w s = (Inr (accessToken (token a)), s\<lparr>calls := calls s @ [StorageGet]\<rparr>)
       \<and> getUserProfile w s = (Inr (profile a), s\<lparr>calls := calls s @ [StorageGet]\<rparr>)"
  using assms by (simp add: getAccessToken_hit getUserProfile_hit fresh_def)

theorem valid_session_short_circuits_witness:
  "getAccessToken (example_world ''n1'' 700) (example_auth (Some (example_session 500)) (Some example_signer))
     = (Inr ''a0'', (example_auth (Some (example_session 500)) (Some example_signer))\<lparr>calls := [StorageGet]\<rparr>)
   \<and> getUserProfile (example_world ''n1'' 700) (example_auth (Some (example_session 500)) (Some example_signer))
     = (Inr ''u0'', (example_auth (Some (example_session 500)) (Some example_signer))\<lparr>calls := [StorageGet]\<rparr>)"
  using valid_session_short_circuits
          [of "example_world ''n1'' 700" "example_auth (Some (example_session 500)) (Some example_signer)"
              "example_session 500"]
  by (simp add: example_defs)

text \<open>
  C9. With no signer attached and a stored session that passes the freshness test, both
  accessors return the cached token and profile after the one storage read. The signer
  assertion is reached only on a miss: with the same session expired, both fail with the
  assertion's error, after the same storage read.
\<close>

theorem cached_session_needs_no_signer:
  assumes "signer s = None"
    and "getLoginResponse w (storage s) = Inr (Some a)"
  shows "(Date_now w - obtainedAt (token a) < SESSION_LIFETIME_MS w \<longrightarrow>
            getAccessToken w s = (Inr (accessToken (token a)), s\<lparr>calls := calls s @ [StorageGet]\<rparr>)
          \<and> getUserProfile w s = (Inr (profile a), s\<lparr>calls := calls s @ [StorageGet]\<rparr>))
       \<and> (\<not> Date_now w - obtainedAt (token a) < SESSION_LIFETIME_MS w \<longrightarrow>
            getAccessToken w s = (Inl not_prepared, s\<lparr>calls := calls s @ [StorageGet]\<rparr>)
          \<and> getUserProfile w s = (Inl not_prepared, s\<lparr>calls := calls s @ [StorageGet]\<rparr>))"
  using assms
  by (simp add: getAccessToken_hit getUserProfile_hit getAccessToken_miss_absent
      getUserProfile_miss_absent fresh_def)

theorem cached_session_needs_no_signer_witness:
  "fst (getAccessToken (example_world ''n1'' 700) (example_auth (Some (example_session 500)) None)) = Inr ''a0''
   \<and> fst (getUserProfile (example_world ''n1'' 700) (example_auth (Some (example_session 500)) None)) = Inr ''u0''
   \<and> fst (getAccessToken (example_world ''n1'' 1500) (example_auth (Some (example_session 500)) None)) = Inl not_prepared
   \<and> fst (getUserProfile (example_world ''n1'' 1500) (example_auth (Some (example_session 500)) None)) = Inl not_prepared"
  using cached_session_needs_no_signer
          [of "example_auth (Some (example_session 500)) None" "example_world ''n1'' 700" "example_session 500"]
        cached_session_needs_no_signer
          [of "example_auth (Some (example_session 500)) None" "example_world ''n1'' 1500" "example_session 500"]
  by (simp add: example_defs)

subsection \<open>The login\<close>

text \<open>A full run of the test double, from any storage content and any earlier calls.\<close>

lemma example_login:
  "login (example_world n now) ((example_auth st (Some example_signer))\<lparr>calls := cs\<rparr>) =
     (Inr \<lparr>profile = ''u1'', token = \<lparr>accessToken = ''a1'', obtainedAt = now\<rparr>\<rparr>,
      (example_auth (Some \<lparr>profile = ''u1'', token = \<lparr>accessToken = ''a1'', obtainedAt = now\<rparr>\<rparr>)
         (Some example_signer))
       \<lparr>calls := cs @
         [GetNonce ''0xABC'' ''dev'',
          NewSiweMessage
            \<lparr>siwe_domain = ''example.com'', siwe_address = ''0xABC'',
             siwe_uri = ''https://auth.dev/siwe/login'', siwe_version = ''1'', siwe_chainId = 1,
             siwe_nonce = n, siwe_issuedAt = ''2026-01-01T00:00:00.000Z''\<rparr>,
          SignMessage (''Nonce: '' @ n),
          Authenticate (''Nonce: '' @ n) (''sig(Nonce: '' @ n @ '')'') ''SiWE'' ''dev'',
          AuthorizeOIDC ''i1'' ''dev'',
          StorageSet \<lparr>profile = ''u1'', token = \<lparr>accessToken = ''a1'', obtainedAt = now\<rparr>\<rparr>]\<rparr>)"
  by (simp add: login_attached [where sg = example_signer] siweFields_def example_defs Let_def)

text \<open>
  C5. In a login with a signer attached and a nonce obtained, the sign-in message is
  constructed once, from exactly the signer's domain and address, the login URL of the
  configured environment, the version \<open>1\<close>, the signer's chain id, the nonce just obtained
  and the time of construction. Its text is the one text signed, and the one text
  submitted to \<open>authenticate\<close> with its signature.
\<close>

theorem login_constructs_message_once:
  assumes "signer s = Some sg"
    and "getNonce w (address sg) (env (config s)) = Inr nr"
    and "login w s = (r, s')"
  shows "siweFields w (config s) sg (nonce nr) =
           \<lparr>siwe_domain = domain sg,
            siwe_address = address sg,
            siwe_uri = SIWE_LOGIN_URL w (env (config s)),
            siwe_version = ''1'',
            siwe_chainId = chainId sg,
            siwe_nonce = nonce nr,
            siwe_issuedAt = toISOString w (new_Date w)\<rparr>
       \<and> constructed (calls s') = constructed (calls s) @ [siweFields w (config s) sg (nonce nr)]
       \<and> (\<forall>m. prepareMessage w (siweFields w (config s) sg (nonce nr)) = Inr m \<longrightarrow>
             signed (calls s') = signed (calls s) @ [m]
           \<and> (\<forall>sig. signer_signMessage sg m = Inr sig \<longrightarrow>
                 submitted (calls s') = submitted (calls s) @ [(m, sig)]))"
  using assms
  by (auto simp: login_attached siweFields_def Let_def constructed_append signed_append
      submitted_append split: sum.splits)

theorem login_constructs_message_once_witness:
  "constructed (calls (snd (login (example_world ''n1'' 42)
      ((example_auth None (Some example_signer))\<lparr>calls := []\<rparr>)))) =
     [\<lparr>siwe_domain = ''example.com'', siwe_address = ''0xABC'',
       siwe_uri = ''https://auth.dev/siwe/login'', siwe_version = ''1'', siwe_chainId = 1,
       siwe_nonce = ''n1'', siwe_issuedAt = ''2026-01-01T00:00:00.000Z''\<rparr>]
   \<and> signed (calls (snd (login (example_world ''n1'' 42)
      ((example_auth None (Some example_signer))\<lparr>calls := []\<rparr>)))) =
     [''Nonce: n1'']
   \<and> submitted (calls (snd (login (example_world ''n1'' 42)
      ((example_auth None (Some example_signer))\<lparr>calls := []\<rparr>)))) =
     [(''Nonce: n1'', ''sig(Nonce: n1)'')]"
  using login_constructs_message_once
          [of "(example_auth None (Some example_signer))\<lparr>calls := []\<rparr>" example_signer
              "example_world ''n1'' 42" "\<lparr>nonce = ''n1''\<rparr>", OF _ _ example_login]
  unfolding example_login
  by (simp add: example_defs siweFields_def)

text \<open>
  C6. Take two login attempts, each with a signer attached, in which the nonce service
  answers two different nonces. Each attempt constructs one message, carrying its own
  nonce, so the two constructed messages differ and the later one does not carry the
  earlier nonce; the text signed in each attempt is the text of its own message. The text
  is produced by the \<open>siwe\<close> library: where both attempts use the same library and its
  text determines the nonce, the two texts differ as well.
\<close>

theorem distinct_nonces_distinct_messages:
  assumes "signer s1 = Some sg1" and "signer s2 = Some sg2"
    and "getNonce w1 (address sg1) (env (config s1)) = Inr n1"
    and "getNonce w2 (address sg2) (env (config s2)) = Inr n2"
    and "nonce n1 \<noteq> nonce n2"
    and "login w1 s1 = (r1, s1')" and "login w2 s2 = (r2, s2')"
  shows "\<exists>f1 f2.
           constructed (calls s1') = constructed (calls s1) @ [f1]
         \<and> constructed (calls s2') = constructed (calls s2) @ [f2]
         \<and> siwe_nonce f1 = nonce n1 \<and> siwe_nonce f2 = nonce n2 \<and> f1 \<noteq> f2
         \<and> (\<forall>m1 m2. prepareMessage w1 f1 = Inr m1 \<and> prepareMessage w2 f2 = Inr m2 \<longrightarrow>
               signed (calls s1') = signed (calls s1) @ [m1]
             \<and> signed (calls s2') = signed (calls s2) @ [m2]
             \<and> (prepareMessage w2 = prepareMessage w1
                  \<and> (\<forall>f g m. prepareMessage w1 f = Inr m \<and> prepareMessage w1 g = Inr m
                        \<longrightarrow> siwe_nonce f = siwe_nonce g)
                 \<longrightarrow> m1 \<noteq> m2))"
proof -
  let ?f1 = "siweFields w1 (config s1) sg1 (nonce n1)"
  let ?f2 = "siweFields w2 (config s2) sg2 (nonce n2)"
  have c1: "constructed (calls s1') = constructed (calls s1) @ [?f1]"
    using assms(1,3,6)
    by (auto simp: login_attached Let_def constructed_append split: sum.splits)
  have c2: "constructed (calls s2') = constructed (calls s2) @ [?f2]"
    using assms(2,4,7)
    by (auto simp: login_attached Let_def constructed_append split: sum.splits)
  have n: "siwe_nonce ?f1 = nonce n1" "siwe_nonce ?f2 = nonce n2"
    by (simp_all add: siweFields_def)
  have d: "?f1 \<noteq> ?f2"
    using n assms(5) by metis
  have t: "m1 \<noteq> m2"
    if "prepareMessage w1 ?f1 = Inr m1" "prepareMessage w2 ?f2 = Inr m2"
      and "prepareMessage w2 = prepareMessage w1"
      and "\<forall>f g m. prepareMessage w1 f = Inr m \<and> prepareMessage w1 g = Inr m
             \<longrightarrow> siwe_nonce f = siwe_nonce g"
    for m1 m2
    using that assms(5) n by metis
  have g1: "signed (calls s1') = signed (calls s1) @ [m1]"
    if "prepareMessage w1 ?f1 = Inr m1" for m1
    using that assms(1,3,6)
    by (auto simp: login_attached Let_def signed_append split: sum.splits)
  have g2: "signed (calls s2') = signed (calls s2) @ [m2]"
    if "prepareMessage w2 ?f2 = Inr m2" for m2
    using that assms(2,4,7)
    by (auto simp: login_attached Let_def signed_append split: sum.splits)
  show ?thesis
    using c1 c2 n d t g1 g2 by blast
qed

theorem distinct_nonces_distinct_messages_witness:
  "signed (calls (snd (login (example_world ''n2'' 5000)
      (snd (login (example_world ''n1'' 42)
         ((example_auth None (Some example_signer))\<lparr>calls := []\<rparr>)))))) =
     [''Nonce: n1'', ''Nonce: n2'']
   \<and> ''Nonce: n1'' \<noteq> ''Nonce: n2''"
proof -
  let ?w1 = "example_world ''n1'' 42 :: (string LoginResponse option, string, string) collaborators"
  let ?w2 = "example_world ''n2'' 5000 :: (string LoginResponse option, string, string) collaborators"
  let ?s1 = "(example_auth None (Some example_signer))\<lparr>calls := []\<rparr>"
  have same: "prepareMessage ?w2 = prepareMessage ?w1"
    by (simp add: example_world_def)
  have lib: "\<forall>f g m. prepareMessage ?w1 f = Inr m \<and> prepareMessage ?w1 g = Inr m
           \<longrightarrow> siwe_nonce f = siwe_nonce g"
    by (auto simp: example_world_def)
  obtain r1 s1' where run1: "login ?w1 ?s1 = (r1, s1')"
    and sg2: "signer s1' = Some example_signer"
    and cfg: "config s1' = \<lparr>env = ''dev'', type = ''SiWE''\<rparr>"
    using example_login [where n = "''n1''" and now = 42 and st = None and cs = "[]"]
    by (simp add: example_auth_def)
  obtain r2 s2' where run2: "login ?w2 s1' = (r2, s2')"
    by (cases "login ?w2 s1'") blast
  have sg1: "signer ?s1 = Some example_signer"
    by (simp add: example_auth_def)
  have n1: "getNonce ?w1 (address example_signer) (env (config ?s1)) = Inr \<lparr>nonce = ''n1''\<rparr>"
    and n2: "getNonce ?w2 (address example_signer) (env (config s1')) = Inr \<lparr>nonce = ''n2''\<rparr>"
    by (simp_all add: example_world_def)
  have neq: "nonce \<lparr>nonce = ''n1''\<rparr> \<noteq> nonce \<lparr>nonce = ''n2''\<rparr>"
    by simp
  obtain f1 f2 where
    f: "constructed (calls s1') = constructed (calls ?s1) @ [f1]"
       "constructed (calls s2') = constructed (calls s1') @ [f2]"
       "siwe_nonce f1 = nonce \<lparr>nonce = ''n1''\<rparr>" "siwe_nonce f2 = nonce \<lparr>nonce = ''n2''\<rparr>"
    and m: "\<forall>m1 m2. prepareMessage ?w1 f1 = Inr m1 \<and> prepareMessage ?w2 f2 = Inr m2 \<longrightarrow>
               signed (calls s1') = signed (calls ?s1) @ [m1]
             \<and> signed (calls s2') = signed (calls s1') @ [m2]
             \<and> (prepareMessage ?w2 = prepareMessage ?w1
                  \<and> (\<forall>f g m. prepareMessage ?w1 f = Inr m \<and> prepareMessage ?w1 g = Inr m
                        \<longrightarrow> siwe_nonce f = siwe_nonce g)
                 \<longrightarrow> m1 \<noteq> m2)"
    using distinct_nonces_distinct_messages [OF sg1 sg2 n1 n2 neq run1 run2]
    by blast
  have p: "prepareMessage ?w1 f1 = Inr ''Nonce: n1''" "prepareMessage ?w2 f2 = Inr ''Nonce: n2''"
    using f by (simp_all add: example_world_def)
  from m p have "signed (calls s2') = (signed (calls ?s1) @ [''Nonce: n1'']) @ [''Nonce: n2'']"
    by metis
  moreover from m p same lib have "''Nonce: n1'' \<noteq> ''Nonce: n2''"
    by blast
  ultimately show ?thesis
    by (simp add: run1 run2)
qed

text \<open>
  C2. A login that stops at any stage before the write (the signer assertion, the nonce
  request, the construction of the message, the signing, \<open>authenticate\<close>, \<open>authorizeOIDC\<close>)
  ends with that stage's error, requests no write and leaves storage as it was. A write is
  requested only as the last of six calls, after the five before it have succeeded, and it
  is one write, of the profile returned by \<open>authenticate\<close> together with the token returned
  by \<open>authorizeOIDC\<close>; a login that succeeds returns that pair, and storage has taken it.
\<close>

theorem login_writes_once_after_all_stages:
  assumes "login w s = (r, s')"
  shows "(signer s = None \<longrightarrow> r = Inl not_prepared \<and> unwritten s s')
    \<and> (\<forall>sg. signer s = Some sg \<longrightarrow>
         (let e = env (config s); t = type (config s) in
          (\<forall>x. getNonce w (address sg) e = Inl x \<longrightarrow> r = Inl x \<and> unwritten s s') \<and>
          (\<forall>nr. getNonce w (address sg) e = Inr nr \<longrightarrow>
            (let f = siweFields w (config s) sg (nonce nr) in
             (\<forall>x. prepareMessage w f = Inl x \<longrightarrow> r = Inl x \<and> unwritten s s') \<and>
             (\<forall>m. prepareMessage w f = Inr m \<longrightarrow>
               (\<forall>x. signer_signMessage sg m = Inl x \<longrightarrow> r = Inl x \<and> unwritten s s') \<and>
               (\<forall>sig. signer_signMessage sg m = Inr sig \<longrightarrow>
                 (\<forall>x. authenticate w m sig t e = Inl x \<longrightarrow> r = Inl x \<and> unwritten s s') \<and>
                 (\<forall>ar. authenticate w m sig t e = Inr ar \<longrightarrow>
                   (\<forall>x. authorizeOIDC w (auth_token ar) e = Inl x \<longrightarrow> r = Inl x \<and> unwritten s s') \<and>
                   (\<forall>tok. authorizeOIDC w (auth_token ar) e = Inr tok \<longrightarrow>
                      calls s' = calls s @
                        [GetNonce (address sg) e, NewSiweMessage f, SignMessage m,
                         Authenticate m sig t e, AuthorizeOIDC (auth_token ar) e,
                         StorageSet \<lparr>profile = auth_profile ar, token = tok\<rparr>]
                    \<and> written (calls s') = written (calls s) @ [\<lparr>profile = auth_profile ar, token = tok\<rparr>]
                    \<and> (\<forall>res. r = Inr res \<longrightarrow>
                          res = \<lparr>profile = auth_profile ar, token = tok\<rparr>
                        \<and> setLoginResponse w res (storage s) = Inr (storage s'))))))))))
    \<and> (\<not> unwritten s s' \<longrightarrow>
         (\<exists>sg nr m sig ar tok.
            signer s = Some sg
          \<and> getNonce w (address sg) (env (config s)) = Inr nr
          \<and> prepareMessage w (siweFields w (config s) sg (nonce nr)) = Inr m
          \<and> signer_signMessage sg m = Inr sig
          \<and> authenticate w m sig (type (config s)) (env (config s)) = Inr ar
          \<and> authorizeOIDC w (auth_token ar) (env (config s)) = Inr tok))
    \<and> (\<forall>res. r = Inr res \<longrightarrow> written (calls s') = written (calls s) @ [res])"
proof (cases "signer s")
  case None
  with assms show ?thesis
    by (auto simp: login_absent unwritten_def)
next
  case (Some sg)
  have stages: "\<forall>sg. signer s = Some sg \<longrightarrow>
         (let e = env (config s); t = type (config s) in
          (\<forall>x. getNonce w (address sg) e = Inl x \<longrightarrow> r = Inl x \<and> unwritten s s') \<and>
          (\<forall>nr. getNonce w (address sg) e = Inr nr \<longrightarrow>
            (let f = siweFields w (config s) sg (nonce nr) in
             (\<forall>x. prepareMessage w f = Inl x \<longrightarrow> r = Inl x \<and> unwritten s s') \<and>
             (\<forall>m. prepareMessage w f = Inr m \<longrightarrow>
               (\<forall>x. signer_signMessage sg m = Inl x \<longrightarrow> r = Inl x \<and> unwritten s s') \<and>
               (\<forall>sig. signer_signMessage sg m = Inr sig \<longrightarrow>
                 (\<forall>x. authenticate w m sig t e = Inl x \<longrightarrow> r = Inl x \<and> unwritten s s') \<and>
                 (\<forall>ar. authenticate w m sig t e = Inr ar \<longrightarrow>
                   (\<forall>x. authorizeOIDC w (auth_token ar) e = Inl x \<longrightarrow> r = Inl x \<and> unwritten s s') \<and>
                   (\<forall>tok. authorizeOIDC w (auth_token ar) e = Inr tok \<longrightarrow>
                      calls s' = calls s @
                        [GetNonce (address sg) e, NewSiweMessage f, SignMessage m,
                         Authenticate m sig t e, AuthorizeOIDC (auth_token ar) e,
                         StorageSet \<lparr>profile = auth_profile ar, token = tok\<rparr>]
                    \<and> written (calls s') = written (calls s) @ [\<lparr>profile = auth_profile ar, token = tok\<rparr>]
                    \<and> (\<forall>res. r = Inr res \<longrightarrow>
                          res = \<lparr>profile = auth_profile ar, token = tok\<rparr>
                        \<and> setLoginResponse w res (storage s) = Inr (storage s')))))))))"
    using assms Some
    by (auto simp: login_attached Let_def unwritten_def written_append split: sum.splits)
  have only_after: "\<not> unwritten s s' \<longrightarrow>
         (\<exists>sg nr m sig ar tok.
            signer s = Some sg
          \<and> getNonce w (address sg) (env (config s)) = Inr nr
          \<and> prepareMessage w (siweFields w (config s) sg (nonce nr)) = Inr m
          \<and> signer_signMessage sg m = Inr sig
          \<and> authenticate w m sig (type (config s)) (env (config s)) = Inr ar
          \<and> authorizeOIDC w (auth_token ar) (env (config s)) = Inr tok)"
    using assms Some
    by (auto simp: login_attached Let_def unwritten_def written_append split: sum.splits)
  have once: "\<forall>res. r = Inr res \<longrightarrow> written (calls s') = written (calls s) @ [res]"
    using assms Some
    by (auto simp: login_attached Let_def written_append split: sum.splits)
  from Some stages only_after once show ?thesis
    by simp
qed


theorem login_writes_once_after_all_stages_witness:
  "login (example_world ''n1'' 42) ((example_auth None (Some example_signer))\<lparr>calls := []\<rparr>)
     = (Inr \<lparr>profile = ''u1'', token = \<lparr>accessToken = ''a1'', obtainedAt = 42\<rparr>\<rparr>,
        (example_auth (Some \<lparr>profile = ''u1'', token = \<lparr>accessToken = ''a1'', obtainedAt = 42\<rparr>\<rparr>)
           (Some example_signer))
         \<lparr>calls :=
           [GetNonce ''0xABC'' ''dev'',
            NewSiweMessage
              \<lparr>siwe_domain = ''example.com'', siwe_address = ''0xABC'',
               siwe_uri = ''https://auth.dev/siwe/login'', siwe_version = ''1'', siwe_chainId = 1,
               siwe_nonce = ''n1'', siwe_issuedAt = ''2026-01-01T00:00:00.000Z''\<rparr>,
            SignMessage ''Nonce: n1'',
            Authenticate ''Nonce: n1'' ''sig(Nonce: n1)'' ''SiWE'' ''dev'',
            AuthorizeOIDC ''i1'' ''dev'',
            StorageSet \<lparr>profile = ''u1'', token = \<lparr>accessToken = ''a1'', obtainedAt = 42\<rparr>\<rparr>]\<rparr>)
   \<and> fst (login ((example_world ''n1'' 42)\<lparr>getNonce := \<lambda>_ _. Inl example_failure\<rparr>)
             (example_auth (Some (example_session 0)) (Some example_signer))) = Inl example_failure
   \<and> unwritten (example_auth (Some (example_session 0)) (Some example_signer))
       (snd (login ((example_world ''n1'' 42)\<lparr>getNonce := \<lambda>_ _. Inl example_failure\<rparr>)
             (example_auth (Some (example_session 0)) (Some example_signer))))
   \<and> fst (login ((example_world ''n1'' 42)\<lparr>prepareMessage := \<lambda>_. Inl example_failure\<rparr>)
             (example_auth (Some (example_session 0)) (Some example_signer))) = Inl example_failure
   \<and> unwritten (example_auth (Some (example_session 0)) (Some example_signer))
       (snd (login ((example_world ''n1'' 42)\<lparr>prepareMessage := \<lambda>_. Inl example_failure\<rparr>)
             (example_auth (Some (example_session 0)) (Some example_signer))))
   \<and> fst (login (example_world ''n1'' 42)
             (example_auth (Some (example_session 0))
                (Some (example_signer\<lparr>signer_signMessage := \<lambda>_. Inl example_failure\<rparr>)))) = Inl example_failure
   \<and> unwritten (example_auth (Some (example_session 0))
                (Some (example_signer\<lparr>signer_signMessage := \<lambda>_. Inl example_failure\<rparr>)))
       (snd (login (example_world ''n1'' 42)
             (example_auth (Some (example_session 0))
                (Some (example_signer\<lparr>signer_signMessage := \<lambda>_. Inl example_failure\<rparr>)))))
   \<and> fst (login ((example_world ''n1'' 42)\<lparr>authenticate := \<lambda>_ _ _ _. Inl example_failure\<rparr>)
             (example_auth (Some (example_session 0)) (Some example_signer))) = Inl example_failure
   \<and> unwritten (example_auth (Some (example_session 0)) (Some example_signer))
       (snd (login ((example_world ''n1'' 42)\<lparr>authenticate := \<lambda>_ _ _ _. Inl example_failure\<rparr>)
             (example_auth (Some (example_session 0)) (Some example_signer))))
   \<and> fst (login ((example_world ''n1'' 42)\<lparr>authorizeOIDC := \<lambda>_ _. Inl example_failure\<rparr>)
             (example_auth (Some (example_session 0)) (Some example_signer))) = Inl example_failure
   \<and> unwritten (example_auth (Some (example_session 0)) (Some example_signer))
       (snd (login ((example_world ''n1'' 42)\<lparr>authorizeOIDC := \<lambda>_ _. Inl example_failure\<rparr>)
             (example_auth (Some (example_session 0)) (Some example_signer))))
   \<and> login (example_world ''n1'' 42) (example_auth (Some (example_session 0)) None)
     = (Inl not_prepared, example_auth (Some (example_session 0)) None)"
proof -
  let ?w = "example_world ''n1'' 42 :: (string LoginResponse option, string, string) collaborators"
  let ?s = "example_auth (Some (example_session 0)) (Some example_signer)"
  let ?bad = "example_signer\<lparr>signer_signMessage := \<lambda>_. Inl example_failure\<rparr>"
  let ?f = "\<lparr>siwe_domain = ''example.com'', siwe_address = ''0xABC'',
             siwe_uri = ''https://auth.dev/siwe/login'', siwe_version = ''1'', siwe_chainId = 1,
             siwe_nonce = ''n1'', siwe_issuedAt = ''2026-01-01T00:00:00.000Z''\<rparr>"
  note ok = example_login [where n = "''n1''" and now = 42 and st = None and cs = "[]"]
  have run_nonce: "login (?w\<lparr>getNonce := \<lambda>_ _. Inl example_failure\<rparr>) ?s =
      (Inl example_failure, ?s\<lparr>calls := [GetNonce ''0xABC'' ''dev'']\<rparr>)"
    by (simp add: login_attached [where sg = example_signer] siweFields_def example_defs Let_def)
  have run_render: "login (?w\<lparr>prepareMessage := \<lambda>_. Inl example_failure\<rparr>) ?s =
      (Inl example_failure, ?s\<lparr>calls := [GetNonce ''0xABC'' ''dev'', NewSiweMessage ?f]\<rparr>)"
    by (simp add: login_attached [where sg = example_signer] siweFields_def example_defs Let_def)
  have run_sign: "login ?w (example_auth (Some (example_session 0)) (Some ?bad)) =
      (Inl example_failure,
       (example_auth (Some (example_session 0)) (Some ?bad))
         \<lparr>calls := [GetNonce ''0xABC'' ''dev'', NewSiweMessage ?f, SignMessage ''Nonce: n1'']\<rparr>)"
    by (simp add: login_attached [where sg = ?bad] siweFields_def example_defs Let_def)
  have run_authn: "login (?w\<lparr>authenticate := \<lambda>_ _ _ _. Inl example_failure\<rparr>) ?s =
      (Inl example_failure,
       ?s\<lparr>calls := [GetNonce ''0xABC'' ''dev'', NewSiweMessage ?f, SignMessage ''Nonce: n1'',
                   Authenticate ''Nonce: n1'' ''sig(Nonce: n1)'' ''SiWE'' ''dev'']\<rparr>)"
    by (simp add: login_attached [where sg = example_signer] siweFields_def example_defs Let_def)
  have run_authz: "login (?w\<lparr>authorizeOIDC := \<lambda>_ _. Inl example_failure\<rparr>) ?s =
      (Inl example_failure,
       ?s\<lparr>calls := [GetNonce ''0xABC'' ''dev'', NewSiweMessage ?f, SignMessage ''Nonce: n1'',
                   Authenticate ''Nonce: n1'' ''sig(Nonce: n1)'' ''SiWE'' ''dev'',
                   AuthorizeOIDC ''i1'' ''dev'']\<rparr>)"
    by (simp add: login_attached [where sg = example_signer] siweFields_def example_defs Let_def)
  have run_absent: "login ?w (example_auth (Some (example_session 0)) None) =
      (Inl not_prepared, example_auth (Some (example_session 0)) None)"
    by (simp add: login_absent example_auth_def)
  show ?thesis
    using login_writes_once_after_all_stages [OF ok]
          login_writes_once_after_all_stages [OF run_nonce]
          login_writes_once_after_all_stages [OF run_render]
          login_writes_once_after_all_stages [OF run_sign]
          login_writes_once_after_all_stages [OF run_authn]
          login_writes_once_after_all_stages [OF run_authz]
          login_writes_once_after_all_stages [OF run_absent]
    unfolding ok run_nonce run_render run_sign run_authn run_authz run_absent fst_conv snd_conv
    by (simp add: example_defs unwritten_def)
qed

end
